theory Spec2Isabelle
  imports Complex_Main
begin

section \<open>Data model\<close>

text \<open>
  The tables of \<^verbatim>\<open>database/schema.sql\<close>, reduced to the columns the booking and search
  routes read or write. A UUID is an abstract identifier; a nullable column is an
  \<open>option\<close>. A table is the list of its rows, in the order the store returns them when
  a query carries no ordering.
\<close>

type_synonym uuid = nat
type_synonym timestamp = nat

datatype room_status = Available | Occupied | Reserved | Maintenance

datatype booking_status = Pending | Approved | Rejected | Cancelled

record owner =
  o_id :: uuid
  o_user_id :: "uuid option"
  o_name :: string
  o_phone :: string
  o_business_name :: string

record tenant =
  t_id :: uuid
  t_user_id :: "uuid option"
  t_name :: string
  t_phone :: string
  t_room_number :: "string option"

record property =
  p_id :: uuid
  p_owner_id :: "uuid option"
  p_name :: string
  p_address :: string
  p_city :: string
  p_state :: string
  p_pincode :: string
  p_latitude :: "real option"
  p_longitude :: "real option"

record room =
  r_id :: uuid
  r_property_id :: "uuid option"
  r_room_number :: string
  r_room_type :: string
  r_rent_amount :: real
  r_deposit_amount :: "real option"
  r_latitude :: "real option"
  r_longitude :: "real option"
  r_status :: room_status
  r_last_updated :: "timestamp option"
  r_created_at :: "timestamp option"

record booking =
  b_id :: uuid
  b_tenant_id :: "uuid option"
  b_room_id :: "uuid option"
  b_property_id :: "uuid option"
  b_move_in_date :: "string option"
  b_move_out_date :: "string option"
  b_status :: booking_status
  b_owner_notes :: "string option"
  b_tenant_notes :: "string option"
  b_updated_at :: "timestamp option"

record notification =
  n_user_id :: "uuid option"
  n_title :: string
  n_message :: string
  n_type :: string

record audit_log =
  a_user_id :: uuid
  a_action :: string
  a_table :: string
  a_record_id :: uuid

record store =
  tenants :: "tenant list"
  owners :: "owner list"
  properties :: "property list"
  rooms :: "room list"
  bookings :: "booking list"
  notifications :: "notification list"
  audit_logs :: "audit_log list"

section \<open>The data store client\<close>

text \<open>
  Every awaited store call of the routes. A call can fail (network, constraint, syntax);
  the client then resolves to \<^verbatim>\<open>{ data: null, error }\<close> and does not throw.
\<close>

datatype store_call =
    Sel_tenant | Sel_owner | Sel_existing | Sel_room | Sel_booking | Sel_rooms
  | Ins_booking | Upd_booking | Upd_room | Upd_tenant | Ins_notification | Ins_audit

text \<open>
  What a request takes from outside the store: the clock read by
  \<^verbatim>\<open>new Date().toISOString()\<close>, the identifier the store's
  \<^verbatim>\<open>uuid_generate_v4()\<close> default gives an inserted booking, which store calls
  fail, and the store's \<^verbatim>\<open>ILIKE\<close> operator (pattern, then text).
\<close>

record env =
  now :: timestamp
  new_id :: uuid
  fails :: "store_call \<Rightarrow> bool"
  ilike :: "string \<Rightarrow> string \<Rightarrow> bool"

text \<open>
  \<^verbatim>\<open>.single()\<close>: the data is the row when the query succeeded with exactly one row,
  and \<^verbatim>\<open>null\<close> (with an error) when it failed or matched no row or several rows.
\<close>

definition single_row :: "bool \<Rightarrow> 'a list \<Rightarrow> 'a option" where
  "single_row failed rows =
     (if failed then None else case rows of [x] \<Rightarrow> Some x | _ \<Rightarrow> None)"

definition property_by_id :: "store \<Rightarrow> uuid option \<Rightarrow> property option" where
  "property_by_id s pid =
     (case pid of None \<Rightarrow> None | Some i \<Rightarrow> find (\<lambda>p. p_id p = i) (properties s))"

definition owner_by_id :: "store \<Rightarrow> uuid option \<Rightarrow> owner option" where
  "owner_by_id s oid =
     (case oid of None \<Rightarrow> None | Some i \<Rightarrow> find (\<lambda>ow. o_id ow = i) (owners s))"

definition room_by_id :: "store \<Rightarrow> uuid option \<Rightarrow> room option" where
  "room_by_id s rid =
     (case rid of None \<Rightarrow> None | Some i \<Rightarrow> find (\<lambda>r. r_id r = i) (rooms s))"

definition tenant_by_id :: "store \<Rightarrow> uuid option \<Rightarrow> tenant option" where
  "tenant_by_id s tid =
     (case tid of None \<Rightarrow> None | Some i \<Rightarrow> find (\<lambda>t. t_id t = i) (tenants s))"

text \<open>
  \<^verbatim>\<open>rooms\<close> with \<^verbatim>\<open>properties!inner(..., owners!inner(...))\<close>: a room is kept only
  with its property and that property's owner.
\<close>

definition room_with_owner :: "store \<Rightarrow> room \<Rightarrow> (room \<times> property \<times> owner) option" where
  "room_with_owner s r =
     (case property_by_id s (r_property_id r) of
        None \<Rightarrow> None
      | Some p \<Rightarrow>
          (case owner_by_id s (p_owner_id p) of
             None \<Rightarrow> None
           | Some ow \<Rightarrow> Some (r, p, ow)))"

text \<open>
  \<^verbatim>\<open>bookings\<close> with \<^verbatim>\<open>tenants!inner\<close>, \<^verbatim>\<open>rooms!inner\<close> and
  \<^verbatim>\<open>properties!inner\<close>.
\<close>

definition booking_joined ::
  "store \<Rightarrow> booking \<Rightarrow> (booking \<times> tenant \<times> room \<times> property) option" where
  "booking_joined s b =
     (case tenant_by_id s (b_tenant_id b) of
        None \<Rightarrow> None
      | Some t \<Rightarrow>
          (case room_by_id s (b_room_id b) of
             None \<Rightarrow> None
           | Some r \<Rightarrow>
               (case property_by_id s (b_property_id b) of
                  None \<Rightarrow> None
                | Some p \<Rightarrow> Some (b, t, r, p))))"

text \<open>\<^verbatim>\<open>bookings\<close> with \<^verbatim>\<open>rooms!inner\<close> and \<^verbatim>\<open>properties!inner\<close>.\<close>

definition booking_with_room ::
  "store \<Rightarrow> booking \<Rightarrow> (booking \<times> room \<times> property) option" where
  "booking_with_room s b =
     (case room_by_id s (b_room_id b) of
        None \<Rightarrow> None
      | Some r \<Rightarrow>
          (case property_by_id s (b_property_id b) of
             None \<Rightarrow> None
           | Some p \<Rightarrow> Some (b, r, p)))"

definition select_tenant :: "env \<Rightarrow> store \<Rightarrow> uuid \<Rightarrow> tenant option" where
  "select_tenant e s uid =
     single_row (fails e Sel_tenant) (filter (\<lambda>t. t_user_id t = Some uid) (tenants s))"

definition select_owner :: "env \<Rightarrow> store \<Rightarrow> uuid \<Rightarrow> owner option" where
  "select_owner e s uid =
     single_row (fails e Sel_owner) (filter (\<lambda>ow. o_user_id ow = Some uid) (owners s))"

definition active :: "booking \<Rightarrow> bool" where
  "active b = (b_status b = Pending \<or> b_status b = Approved)"

definition select_existing :: "env \<Rightarrow> store \<Rightarrow> uuid \<Rightarrow> booking option" where
  "select_existing e s tid =
     single_row (fails e Sel_existing)
       (filter (\<lambda>b. b_tenant_id b = Some tid \<and> active b) (bookings s))"

definition select_available_room ::
  "env \<Rightarrow> store \<Rightarrow> uuid \<Rightarrow> (room \<times> property \<times> owner) option" where
  "select_available_room e s rid =
     single_row (fails e Sel_room)
       (List.map_filter (room_with_owner s)
          (filter (\<lambda>r. r_id r = rid \<and> r_status r = Available) (rooms s)))"

definition select_owner_booking ::
  "env \<Rightarrow> store \<Rightarrow> uuid \<Rightarrow> uuid \<Rightarrow> (booking \<times> tenant \<times> room \<times> property) option" where
  "select_owner_booking e s bid oid =
     single_row (fails e Sel_booking)
       (filter (\<lambda>(b, t, r, p). p_owner_id p = Some oid)
          (List.map_filter (booking_joined s)
             (filter (\<lambda>b. b_id b = bid) (bookings s))))"

definition select_tenant_booking ::
  "env \<Rightarrow> store \<Rightarrow> uuid \<Rightarrow> uuid \<Rightarrow> (booking \<times> room \<times> property) option" where
  "select_tenant_booking e s bid tid =
     single_row (fails e Sel_booking)
       (List.map_filter (booking_with_room s)
          (filter (\<lambda>b. b_id b = bid \<and> b_tenant_id b = Some tid) (bookings s)))"

text \<open>
  \<^verbatim>\<open>insert(...).select().single()\<close> on \<^verbatim>\<open>bookings\<close>: the primary key rejects an
  identifier that is already there.
\<close>

definition insert_booking :: "env \<Rightarrow> store \<Rightarrow> booking \<Rightarrow> store option" where
  "insert_booking e s b =
     (if fails e Ins_booking \<or> b_id b \<in> set (map b_id (bookings s)) then None
      else Some (s\<lparr>bookings := bookings s @ [b]\<rparr>))"

text \<open>
  \<^verbatim>\<open>update(...).eq('id', bookingId).select().single()\<close>: a singular result is
  demanded, so the write is kept only when exactly one row has the identifier.
\<close>

definition update_booking ::
  "env \<Rightarrow> store \<Rightarrow> uuid \<Rightarrow> (booking \<Rightarrow> booking) \<Rightarrow> (booking \<times> store) option" where
  "update_booking e s bid f =
     (if fails e Upd_booking then None
      else case filter (\<lambda>b. b_id b = bid) (bookings s) of
             [b] \<Rightarrow> Some (f b, s\<lparr>bookings := map (\<lambda>x. if b_id x = bid then f x else x) (bookings s)\<rparr>)
           | _ \<Rightarrow> None)"

text \<open>The writes below are awaited without a look at their error.\<close>

definition update_room_status :: "env \<Rightarrow> store \<Rightarrow> uuid option \<Rightarrow> room_status \<Rightarrow> store" where
  "update_room_status e s rid st =
     (if fails e Upd_room then s
      else s\<lparr>rooms := map (\<lambda>r. if Some (r_id r) = rid
                                 then r\<lparr>r_status := st, r_last_updated := Some (now e)\<rparr>
                                 else r) (rooms s)\<rparr>)"

definition update_tenant_room_number :: "env \<Rightarrow> store \<Rightarrow> uuid option \<Rightarrow> string \<Rightarrow> store" where
  "update_tenant_room_number e s tid rn =
     (if fails e Upd_tenant then s
      else s\<lparr>tenants := map (\<lambda>t. if Some (t_id t) = tid
                                   then t\<lparr>t_room_number := Some rn\<rparr>
                                   else t) (tenants s)\<rparr>)"

definition insert_notification :: "env \<Rightarrow> store \<Rightarrow> notification \<Rightarrow> store" where
  "insert_notification e s n =
     (if fails e Ins_notification then s
      else s\<lparr>notifications := notifications s @ [n]\<rparr>)"

text \<open>
  Modelled from the spec: \<^verbatim>\<open>logActivity\<close> of \<^verbatim>\<open>middleware/auth\<close> is not among the
  sources. The spec has audit-log persistence as a best-effort side effect after the
  primary transition: the row is written, and a failure is swallowed.
\<close>

definition logActivity :: "env \<Rightarrow> store \<Rightarrow> uuid \<Rightarrow> string \<Rightarrow> string \<Rightarrow> uuid \<Rightarrow> store" where
  "logActivity e s uid action table rid =
     (if fails e Ins_audit then s
      else s\<lparr>audit_logs := audit_logs s @
             [\<lparr>a_user_id = uid, a_action = action, a_table = table, a_record_id = rid\<rparr>]\<rparr>)"

section \<open>Booking routes\<close>

datatype error =
    Validation "string list"
  | Tenant_profile_not_found
  | Owner_profile_not_found
  | Already_active_booking
  | Room_not_available
  | Failed_to_create_booking
  | Booking_not_found_or_access_denied
  | Booking_already_processed
  | Failed_to_update_booking_status
  | Booking_already_cancelled
  | Failed_to_cancel_booking
  | Failed_to_fetch_available_rooms

fun http_status :: "error \<Rightarrow> nat" where
  "http_status (Validation _) = 400"
| "http_status Tenant_profile_not_found = 404"
| "http_status Owner_profile_not_found = 404"
| "http_status Already_active_booking = 400"
| "http_status Room_not_available = 400"
| "http_status Failed_to_create_booking = 500"
| "http_status Booking_not_found_or_access_denied = 404"
| "http_status Booking_already_processed = 400"
| "http_status Failed_to_update_booking_status = 500"
| "http_status Booking_already_cancelled = 400"
| "http_status Failed_to_cancel_booking = 500"
| "http_status Failed_to_fetch_available_rooms = 500"

subsection \<open>POST /book-room\<close>

text \<open>
  A date of the body after \<^verbatim>\<open>new Date(...)\<close>: absent (falsy), unparsable
  (\<^verbatim>\<open>isNaN(getTime())\<close>), or parsed, with its \<^verbatim>\<open>toISOString()\<close>.
\<close>

datatype date_field = No_date | Bad_date | Good_date string

text \<open>
  The body after the camelCase/snake_case fallback. \<open>br_user\<close> is \<^verbatim>\<open>req.user.id\<close>,
  set by the authentication middleware; \<open>br_roomId\<close> is \<open>None\<close> when the field is
  missing or fails the UUID pattern.
\<close>

record book_req =
  br_user :: uuid
  br_roomId :: "uuid option"
  br_moveInDate :: date_field
  br_moveOutDate :: date_field
  br_notes :: "string option"

definition book_room_errors :: "book_req \<Rightarrow> string list" where
  "book_room_errors req =
     (if br_roomId req = None then [''roomId''] else []) @
     (if br_moveInDate req = No_date \<or> br_moveInDate req = Bad_date then [''moveInDate''] else []) @
     (if br_moveOutDate req = Bad_date then [''moveOutDate''] else [])"

fun normalized :: "date_field \<Rightarrow> string option" where
  "normalized (Good_date txt) = Some txt"
| "normalized _ = None"

text \<open>The reads of the route, up to and including \<^verbatim>\<open>Verify room is available\<close>.\<close>

definition book_room_check ::
  "env \<Rightarrow> store \<Rightarrow> book_req \<Rightarrow> error + (tenant \<times> room \<times> property \<times> owner)" where
  "book_room_check e s req =
     (if book_room_errors req \<noteq> [] then Inl (Validation (book_room_errors req))
      else case select_tenant e s (br_user req) of
        None \<Rightarrow> Inl Tenant_profile_not_found
      | Some t \<Rightarrow>
          (case select_existing e s (t_id t) of
             Some existingBooking \<Rightarrow> Inl Already_active_booking
           | None \<Rightarrow>
               (case br_roomId req of
                  None \<Rightarrow> Inl (Validation (book_room_errors req))
                | Some roomId \<Rightarrow>
                    (case select_available_room e s roomId of
                       None \<Rightarrow> Inl Room_not_available
                     | Some (r, p, ow) \<Rightarrow> Inr (t, r, p, ow)))))"

text \<open>The response body of a created booking: the row, with the room and property summary.\<close>

record booking_created =
  bc_booking :: booking
  bc_room_number :: string
  bc_room_type :: string
  bc_rent_amount :: real
  bc_property_name :: string
  bc_property_address :: string

text \<open>The writes of the route, from \<^verbatim>\<open>Create booking\<close> on.\<close>

definition book_room_commit ::
  "env \<Rightarrow> store \<Rightarrow> book_req \<Rightarrow> (tenant \<times> room \<times> property \<times> owner) \<Rightarrow>
     (error + booking_created) \<times> store" where
  "book_room_commit e s req ctx =
     (case ctx of (t, r, p, ow) \<Rightarrow>
        (let row = \<lparr>b_id = new_id e, b_tenant_id = Some (t_id t), b_room_id = br_roomId req,
                    b_property_id = Some (p_id p),
                    b_move_in_date = normalized (br_moveInDate req),
                    b_move_out_date = normalized (br_moveOutDate req),
                    b_status = Pending, b_owner_notes = None,
                    b_tenant_notes = br_notes req, b_updated_at = None\<rparr>
         in case insert_booking e s row of
              None \<Rightarrow> (Inl Failed_to_create_booking, s)
            | Some s1 \<Rightarrow>
                (let s2 = update_room_status e s1 (br_roomId req) Reserved;
                     s3 = insert_notification e s2
                            \<lparr>n_user_id = o_user_id ow, n_title = ''New Booking Request'',
                             n_message = ''New booking request from '' @ t_name t @
                                         '' for room '' @ r_room_number r,
                             n_type = ''booking''\<rparr>;
                     s4 = logActivity e s3 (br_user req) ''create'' ''bookings'' (b_id row)
                 in (Inr \<lparr>bc_booking = row, bc_room_number = r_room_number r,
                          bc_room_type = r_room_type r, bc_rent_amount = r_rent_amount r,
                          bc_property_name = p_name p, bc_property_address = p_address p\<rparr>,
                     s4))))"

definition book_room :: "env \<Rightarrow> store \<Rightarrow> book_req \<Rightarrow> (error + booking_created) \<times> store" where
  "book_room e s req =
     (case book_room_check e s req of
        Inl err \<Rightarrow> (Inl err, s)
      | Inr ctx \<Rightarrow> book_room_commit e s req ctx)"

subsection \<open>PUT /booking/:bookingId/status\<close>

text \<open>
  \<open>sr_user\<close> is \<^verbatim>\<open>req.user.id\<close>; \<open>sr_notes\<close> is the body's \<^verbatim>\<open>notes\<close> after the
  validator has trimmed it.
\<close>

record status_req =
  sr_user :: uuid
  sr_bookingId :: uuid
  sr_status :: string
  sr_notes :: "string option"

text \<open>The cast of a text to the \<^verbatim>\<open>booking_status\<close> enum of the schema.\<close>

definition booking_status_of_text :: "string \<Rightarrow> booking_status option" where
  "booking_status_of_text x =
     (if x = ''pending'' then Some Pending
      else if x = ''approved'' then Some Approved
      else if x = ''rejected'' then Some Rejected
      else if x = ''cancelled'' then Some Cancelled
      else None)"

definition update_booking_status ::
  "env \<Rightarrow> store \<Rightarrow> status_req \<Rightarrow> (error + booking) \<times> store" where
  "update_booking_status e s req =
     (if sr_status req \<noteq> ''approved'' \<and> sr_status req \<noteq> ''rejected''
      then (Inl (Validation [''status'']), s)
      else case select_owner e s (sr_user req) of
        None \<Rightarrow> (Inl Owner_profile_not_found, s)
      | Some ow \<Rightarrow>
          (case select_owner_booking e s (sr_bookingId req) (o_id ow) of
             None \<Rightarrow> (Inl Booking_not_found_or_access_denied, s)
           | Some (b, t, r, p) \<Rightarrow>
               if b_status b \<noteq> Pending then (Inl Booking_already_processed, s)
               else
                 (case booking_status_of_text (sr_status req) of
                    None \<Rightarrow> (Inl Failed_to_update_booking_status, s)
                  | Some st \<Rightarrow>
                 (case update_booking e s (sr_bookingId req)
                         (\<lambda>x. x\<lparr>b_status := st, b_owner_notes := sr_notes req,
                                 b_updated_at := Some (now e)\<rparr>) of
                    None \<Rightarrow> (Inl Failed_to_update_booking_status, s)
                  | Some (updatedBooking, s1) \<Rightarrow>
                      (let s2 = (if sr_status req = ''approved''
                                 then update_tenant_room_number e
                                        (update_room_status e s1 (b_room_id b) Occupied)
                                        (b_tenant_id b) (r_room_number r)
                                 else update_room_status e s1 (b_room_id b) Available);
                           s3 = insert_notification e s2
                                  \<lparr>n_user_id = t_user_id t,
                                   n_title = ''Booking '' @
                                     (if sr_status req = ''approved'' then ''Approved'' else ''Rejected''),
                                   n_message = ''Your booking request for room '' @ r_room_number r @
                                     '' has been '' @
                                     (if sr_status req = ''approved'' then ''approved'' else ''rejected'') @ ''.'',
                                   n_type = ''booking''\<rparr>;
                           s4 = logActivity e s3 (sr_user req) ''update'' ''bookings'' (sr_bookingId req)
                       in (Inr updatedBooking, s4))))))"

subsection \<open>PUT /booking/:bookingId/cancel\<close>

record cancel_req =
  cr_user :: uuid
  cr_bookingId :: uuid


text \<open>What the store holds for one identifier.\<close>

definition booking_status_of :: "store \<Rightarrow> uuid \<Rightarrow> booking_status option" where
  "booking_status_of s bid = map_option b_status (find (\<lambda>b. b_id b = bid) (bookings s))"

definition room_status_of :: "store \<Rightarrow> uuid \<Rightarrow> room_status option" where
  "room_status_of s rid = map_option r_status (find (\<lambda>r. r_id r = rid) (rooms s))"

definition tenant_room_number_of :: "store \<Rightarrow> uuid \<Rightarrow> string option option" where
  "tenant_room_number_of s tid = map_option t_room_number (find (\<lambda>t. t_id t = tid) (tenants s))"

text \<open>
  Two book-room requests in flight together. Each \<^verbatim>\<open>await\<close> hands control back, so
  the second request can finish its reads before the first one writes: this is that
  schedule.
\<close>

definition book_room_interleaved ::
  "env \<Rightarrow> env \<Rightarrow> store \<Rightarrow> book_req \<Rightarrow> book_req \<Rightarrow>
     (error + booking_created) \<times> (error + booking_created) \<times> store" where
  "book_room_interleaved e1 e2 s req1 req2 =
     (let check1 = book_room_check e1 s req1;
          check2 = book_room_check e2 s req2;
          (res1, s1) = (case check1 of Inl err \<Rightarrow> (Inl err, s)
                        | Inr ctx \<Rightarrow> book_room_commit e1 s req1 ctx);
          (res2, s2) = (case check2 of Inl err \<Rightarrow> (Inl err, s1)
                        | Inr ctx \<Rightarrow> book_room_commit e2 s1 req2 ctx)
      in (res1, res2, s2))"



text \<open>The three mutating requests, and a run of them one after another.\<close>

datatype request =
    Book_room book_req
  | Update_booking_status status_req
  | Cancel_booking cancel_req



section \<open>Numbers of the search route\<close>

text \<open>
  A JavaScript number: a finite value, an infinity or NaN. Finite arithmetic is exact
  here (no rounding, no overflow, one zero).
\<close>

datatype jsnum = Fin real | PInf | NInf | NaN

fun js_neg :: "jsnum \<Rightarrow> jsnum" where
  "js_neg (Fin x) = Fin (- x)"
| "js_neg PInf = NInf"
| "js_neg NInf = PInf"
| "js_neg NaN = NaN"

fun js_add :: "jsnum \<Rightarrow> jsnum \<Rightarrow> jsnum" where
  "js_add (Fin x) (Fin y) = Fin (x + y)"
| "js_add NaN _ = NaN"
| "js_add _ NaN = NaN"
| "js_add PInf NInf = NaN"
| "js_add NInf PInf = NaN"
| "js_add PInf _ = PInf"
| "js_add _ PInf = PInf"
| "js_add NInf _ = NInf"
| "js_add _ NInf = NInf"

definition js_sub :: "jsnum \<Rightarrow> jsnum \<Rightarrow> jsnum" where
  "js_sub a b = js_add a (js_neg b)"

fun js_mul :: "jsnum \<Rightarrow> jsnum \<Rightarrow> jsnum" where
  "js_mul (Fin x) (Fin y) = Fin (x * y)"
| "js_mul NaN _ = NaN"
| "js_mul _ NaN = NaN"
| "js_mul PInf (Fin y) = (if y = 0 then NaN else if 0 < y then PInf else NInf)"
| "js_mul NInf (Fin y) = (if y = 0 then NaN else if 0 < y then NInf else PInf)"
| "js_mul (Fin x) PInf = (if x = 0 then NaN else if 0 < x then PInf else NInf)"
| "js_mul (Fin x) NInf = (if x = 0 then NaN else if 0 < x then NInf else PInf)"
| "js_mul PInf PInf = PInf"
| "js_mul NInf NInf = PInf"
| "js_mul PInf NInf = NInf"
| "js_mul NInf PInf = NInf"

fun js_div :: "jsnum \<Rightarrow> jsnum \<Rightarrow> jsnum" where
  "js_div (Fin x) (Fin y) =
     (if y = 0 then (if x = 0 then NaN else if 0 < x then PInf else NInf) else Fin (x / y))"
| "js_div NaN _ = NaN"
| "js_div _ NaN = NaN"
| "js_div (Fin x) _ = Fin 0"
| "js_div PInf (Fin y) = (if 0 \<le> y then PInf else NInf)"
| "js_div NInf (Fin y) = (if 0 \<le> y then NInf else PInf)"
| "js_div _ _ = NaN"

fun js_sin :: "jsnum \<Rightarrow> jsnum" where
  "js_sin (Fin x) = Fin (sin x)"
| "js_sin _ = NaN"

fun js_cos :: "jsnum \<Rightarrow> jsnum" where
  "js_cos (Fin x) = Fin (cos x)"
| "js_cos _ = NaN"

fun js_sqrt :: "jsnum \<Rightarrow> jsnum" where
  "js_sqrt (Fin x) = (if x < 0 then NaN else Fin (sqrt x))"
| "js_sqrt PInf = PInf"
| "js_sqrt _ = NaN"

definition atan2 :: "real \<Rightarrow> real \<Rightarrow> real" where
  "atan2 y x =
     (if 0 < x then arctan (y / x)
      else if x < 0 then (if 0 \<le> y then arctan (y / x) + pi else arctan (y / x) - pi)
      else if 0 < y then pi / 2
      else if y < 0 then - (pi / 2)
      else 0)"

fun js_atan2 :: "jsnum \<Rightarrow> jsnum \<Rightarrow> jsnum" where
  "js_atan2 (Fin y) (Fin x) = Fin (atan2 y x)"
| "js_atan2 NaN _ = NaN"
| "js_atan2 _ NaN = NaN"
| "js_atan2 (Fin y) PInf = Fin 0"
| "js_atan2 (Fin y) NInf = (if 0 \<le> y then Fin pi else Fin (- pi))"
| "js_atan2 PInf (Fin x) = Fin (pi / 2)"
| "js_atan2 NInf (Fin x) = Fin (- (pi / 2))"
| "js_atan2 PInf PInf = Fin (pi / 4)"
| "js_atan2 PInf NInf = Fin (3 * pi / 4)"
| "js_atan2 NInf PInf = Fin (- (pi / 4))"
| "js_atan2 NInf NInf = Fin (- (3 * pi / 4))"

text \<open>\<^verbatim>\<open>a <= b\<close> on numbers.\<close>

fun js_le :: "jsnum \<Rightarrow> jsnum \<Rightarrow> bool" where
  "js_le (Fin x) (Fin y) = (x \<le> y)"
| "js_le NaN _ = False"
| "js_le _ NaN = False"
| "js_le NInf _ = True"
| "js_le _ PInf = True"
| "js_le _ _ = False"

text \<open>A number as a condition: zero and NaN are falsy.\<close>

fun js_truthy :: "jsnum \<Rightarrow> bool" where
  "js_truthy (Fin x) = (x \<noteq> 0)"
| "js_truthy NaN = False"
| "js_truthy _ = True"

text \<open>
  \<^verbatim>\<open>a || b\<close> on a number that may be \<^verbatim>\<open>null\<close> or \<^verbatim>\<open>undefined\<close> (\<open>None\<close>).
\<close>

definition js_or :: "jsnum option \<Rightarrow> jsnum option \<Rightarrow> jsnum option" where
  "js_or a b = (case a of None \<Rightarrow> b | Some v \<Rightarrow> if js_truthy v then a else b)"

subsection \<open>parseFloat\<close>

text \<open>
  Leading white space is skipped; of the white space of the language the one-byte
  characters are here (tab, line feed, vertical tab, form feed, carriage return, space).
\<close>

definition is_space :: "char \<Rightarrow> bool" where
  "is_space c = (of_char c \<in> {9, 10, 11, 12, 13, 32 :: nat})"

definition is_digit :: "char \<Rightarrow> bool" where
  "is_digit c = (48 \<le> (of_char c :: nat) \<and> (of_char c :: nat) \<le> 57)"

definition digits_value :: "string \<Rightarrow> nat" where
  "digits_value ds = foldl (\<lambda>n c. 10 * n + (of_char c - 48)) 0 ds"

text \<open>The exponent part: taken when \<^verbatim>\<open>e\<close> or \<^verbatim>\<open>E\<close> is followed by digits, with a sign or not.\<close>

definition exponent_part :: "string \<Rightarrow> int" where
  "exponent_part r =
     (case r of
        [] \<Rightarrow> 0
      | c # r1 \<Rightarrow>
          if c = CHR ''e'' \<or> c = CHR ''E'' then
            (case r1 of
               [] \<Rightarrow> 0
             | d # r2 \<Rightarrow>
                 if d = CHR ''-'' then
                   (if takeWhile is_digit r2 = [] then 0
                    else - int (digits_value (takeWhile is_digit r2)))
                 else if d = CHR ''+'' then int (digits_value (takeWhile is_digit r2))
                 else int (digits_value (takeWhile is_digit r1)))
          else 0)"

definition scale10 :: "real \<Rightarrow> int \<Rightarrow> real" where
  "scale10 m k = (if 0 \<le> k then m * 10 ^ nat k else m / 10 ^ nat (- k))"

text \<open>The unsigned part: \<^verbatim>\<open>Infinity\<close>, or the longest decimal literal at the front.\<close>

definition parse_unsigned :: "string \<Rightarrow> jsnum" where
  "parse_unsigned u =
     (if take 8 u = ''Infinity'' then PInf
      else
        (let ip = takeWhile is_digit u;
             r1 = dropWhile is_digit u;
             fp = (case r1 of [] \<Rightarrow> [] | c # r \<Rightarrow> if c = CHR ''.'' then takeWhile is_digit r else []);
             r2 = (case r1 of [] \<Rightarrow> [] | c # r \<Rightarrow> if c = CHR ''.'' then dropWhile is_digit r else r1)
         in if ip = [] \<and> fp = [] then NaN
            else Fin (scale10 (real (digits_value ip) + real (digits_value fp) / 10 ^ length fp)
                        (exponent_part r2))))"

definition parseFloat :: "string \<Rightarrow> jsnum" where
  "parseFloat x =
     (case dropWhile is_space x of
        [] \<Rightarrow> NaN
      | c # r \<Rightarrow>
          if c = CHR ''-'' then js_neg (parse_unsigned r)
          else if c = CHR ''+'' then parse_unsigned r
          else parse_unsigned (c # r))"

section \<open>GET /available-rooms\<close>

datatype role = Owner | Tenant | Admin

record principal =
  pr_id :: uuid
  pr_role :: role

text \<open>\<^verbatim>\<open>req.query\<close>: each parameter is a text, or is not there.\<close>

record search_query =
  location :: "string option"
  maxRent :: "string option"
  minRent :: "string option"
  roomType :: "string option"
  latitude :: "string option"
  longitude :: "string option"
  radius :: "string option"
  sortBy :: "string option"
  sortOrder :: "string option"

text \<open>
  The request: the route is registered with no middleware, so \<open>req_user\<close> stands for
  whoever sent it (\<open>None\<close> for an anonymous caller).
\<close>

record search_req =
  req_user :: "principal option"
  req_query :: search_query

text \<open>A parameter as a condition: a missing parameter and the empty text are falsy.\<close>

definition truthy :: "string option \<Rightarrow> bool" where
  "truthy v = (case v of None \<Rightarrow> False | Some x \<Rightarrow> x \<noteq> [])"

text \<open>\<^verbatim>\<open>parseFloat\<close> of a parameter; of \<^verbatim>\<open>undefined\<close> it is NaN.\<close>

definition parse_param :: "string option \<Rightarrow> jsnum" where
  "parse_param v = (case v of None \<Rightarrow> NaN | Some x \<Rightarrow> parseFloat x)"

text \<open>
  The embedded \<^verbatim>\<open>properties\<close> object of a fetched room, with the columns the select
  list names: \<^verbatim>\<open>id, name, address, city, state, pincode\<close> and the owner's
  \<^verbatim>\<open>name, phone, business_name\<close>.
\<close>

record property_embed =
  pe_id :: uuid
  pe_name :: string
  pe_address :: string
  pe_city :: string
  pe_state :: string
  pe_pincode :: string
  pe_owner_name :: string
  pe_owner_phone :: string
  pe_owner_business_name :: string

record candidate =
  c_room :: room
  c_properties :: property_embed

record found_room = candidate +
  distance_km :: "jsnum option"

definition embed :: "room \<times> property \<times> owner \<Rightarrow> candidate" where
  "embed x =
     (case x of (r, p, ow) \<Rightarrow>
        \<lparr>c_room = r,
         c_properties = \<lparr>pe_id = p_id p, pe_name = p_name p, pe_address = p_address p,
                         pe_city = p_city p, pe_state = p_state p, pe_pincode = p_pincode p,
                         pe_owner_name = o_name ow, pe_owner_phone = o_phone ow,
                         pe_owner_business_name = o_business_name ow\<rparr>\<rparr>)"

text \<open>
  \<^verbatim>\<open>prop.latitude\<close> and \<^verbatim>\<open>prop.longitude\<close>: the embedded object has no such key,
  so the read gives \<^verbatim>\<open>undefined\<close>.
\<close>

definition prop_latitude :: "property_embed \<Rightarrow> jsnum option" where
  "prop_latitude prop = None"

definition prop_longitude :: "property_embed \<Rightarrow> jsnum option" where
  "prop_longitude prop = None"

text \<open>
  The store compares the numeric column \<^verbatim>\<open>rent_amount\<close> with the number the client
  sends as text; PostgreSQL orders NaN above every number.
\<close>

fun pg_gte :: "real \<Rightarrow> jsnum \<Rightarrow> bool" where
  "pg_gte v (Fin x) = (x \<le> v)"
| "pg_gte v NInf = True"
| "pg_gte v _ = False"

fun pg_lte :: "real \<Rightarrow> jsnum \<Rightarrow> bool" where
  "pg_lte v (Fin x) = (v \<le> x)"
| "pg_lte v NInf = False"
| "pg_lte v _ = True"

definition matches_filters :: "env \<Rightarrow> search_query \<Rightarrow> room \<times> property \<times> owner \<Rightarrow> bool" where
  "matches_filters e q x =
     (case x of (r, p, ow) \<Rightarrow>
        r_status r = Available \<and>
        (case location q of
           None \<Rightarrow> True
         | Some loc \<Rightarrow>
             if truthy (location q)
             then (let pat = ''%'' @ loc @ ''%''
                   in ilike e pat (p_city p) \<or> ilike e pat (p_state p) \<or> ilike e pat (p_address p))
             else True) \<and>
        (if truthy (minRent q) then pg_gte (r_rent_amount r) (parse_param (minRent q)) else True) \<and>
        (if truthy (maxRent q) then pg_lte (r_rent_amount r) (parse_param (maxRent q)) else True) \<and>
        (if truthy (roomType q) then Some (r_room_type r) = roomType q else True))"

text \<open>\<^verbatim>\<open>await query\<close>: the filtered rooms, in the store's own order.\<close>

definition select_rooms :: "env \<Rightarrow> store \<Rightarrow> search_query \<Rightarrow> candidate list option" where
  "select_rooms e s q =
     (if fails e Sel_rooms then None
      else Some (map embed (filter (matches_filters e q)
                             (List.map_filter (room_with_owner s) (rooms s)))))"

text \<open>
  A stable insertion sort: \<open>after x y\<close> says that \<open>x\<close> has to come after \<open>y\<close>.
\<close>

fun insert_by :: "('a \<Rightarrow> 'a \<Rightarrow> bool) \<Rightarrow> 'a \<Rightarrow> 'a list \<Rightarrow> 'a list" where
  "insert_by after x [] = [x]"
| "insert_by after x (y # ys) = (if after x y then y # insert_by after x ys else x # y # ys)"

definition sort_by :: "('a \<Rightarrow> 'a \<Rightarrow> bool) \<Rightarrow> 'a list \<Rightarrow> 'a list" where
  "sort_by after xs = foldr (insert_by after) xs []"

text \<open>
  \<^verbatim>\<open>Array.prototype.sort(compare)\<close>: stable; \<open>a\<close> goes after \<open>b\<close> when
  \<^verbatim>\<open>compare(a, b) > 0\<close>, and a NaN from the comparator counts as 0.
\<close>

fun js_positive :: "jsnum \<Rightarrow> bool" where
  "js_positive (Fin x) = (0 < x)"
| "js_positive PInf = True"
| "js_positive _ = False"

definition js_sort :: "('a \<Rightarrow> 'a \<Rightarrow> jsnum) \<Rightarrow> 'a list \<Rightarrow> 'a list" where
  "js_sort compare xs = sort_by (\<lambda>a b. js_positive (compare a b)) xs"

text \<open>
  A column of a fetched room as the handler sees it: \<^verbatim>\<open>null\<close>, a number, or a
  timestamp. A timestamp arrives as ISO-8601 text (\<^verbatim>\<open>2024-06-01T10:30:00+00:00\<close>),
  which is no numeric literal: as a number it is NaN.
\<close>

datatype jsval = JNull | JNumber jsnum | JTimestamp timestamp

fun to_number :: "jsval \<Rightarrow> jsnum" where
  "to_number JNull = Fin 0"
| "to_number (JNumber n) = n"
| "to_number (JTimestamp t) = NaN"

definition column :: "string \<Rightarrow> room \<Rightarrow> jsval" where
  "column c r =
     (if c = ''rent_amount'' then JNumber (Fin (r_rent_amount r))
      else if c = ''deposit_amount''
        then (case r_deposit_amount r of None \<Rightarrow> JNull | Some d \<Rightarrow> JNumber (Fin d))
      else (case r_created_at r of None \<Rightarrow> JNull | Some t \<Rightarrow> JTimestamp t))"

text \<open>
  \<^verbatim>\<open>query.order(orderColumn, { ascending })\<close>: the store's \<^verbatim>\<open>ORDER BY\<close>, which puts
  nulls last when ascending and first when descending.
\<close>

fun pg_after :: "bool \<Rightarrow> jsval \<Rightarrow> jsval \<Rightarrow> bool" where
  "pg_after asc JNull JNull = False"
| "pg_after asc JNull _ = asc"
| "pg_after asc _ JNull = (\<not> asc)"
| "pg_after asc (JNumber (Fin x)) (JNumber (Fin y)) = (if asc then y < x else x < y)"
| "pg_after asc (JTimestamp x) (JTimestamp y) = (if asc then y < x else x < y)"
| "pg_after asc _ _ = False"

definition select_rooms_ordered ::
  "env \<Rightarrow> store \<Rightarrow> search_query \<Rightarrow> string \<Rightarrow> bool \<Rightarrow> candidate list option" where
  "select_rooms_ordered e s q orderColumn ascending =
     map_option
       (sort_by (\<lambda>a b. pg_after ascending (column orderColumn (c_room a))
                                            (column orderColumn (c_room b))))
       (select_rooms e s q)"

definition toRad :: "jsnum \<Rightarrow> jsnum" where
  "toRad v = js_div (js_mul v (Fin pi)) (Fin 180)"

definition distanceKm :: "jsnum \<Rightarrow> jsnum \<Rightarrow> jsnum option \<Rightarrow> jsnum option \<Rightarrow> jsnum option" where
  "distanceKm lat1 lon1 lat2o lon2o =
     (case lat2o of
        None \<Rightarrow> None
      | Some lat2 \<Rightarrow>
          (case lon2o of
             None \<Rightarrow> None
           | Some lon2 \<Rightarrow>
               (let R = Fin 6371;
                    dLat = toRad (js_sub lat2 lat1);
                    dLon = toRad (js_sub lon2 lon1);
                    a = js_add
                          (js_mul (js_sin (js_div dLat (Fin 2))) (js_sin (js_div dLat (Fin 2))))
                          (js_mul (js_mul (js_mul (js_cos (toRad lat1)) (js_cos (toRad lat2)))
                                     (js_sin (js_div dLon (Fin 2))))
                             (js_sin (js_div dLon (Fin 2))));
                    c = js_mul (Fin 2) (js_atan2 (js_sqrt a) (js_sqrt (js_sub (Fin 1) a)))
                in Some (js_mul R c))))"

definition annotate :: "jsnum \<Rightarrow> jsnum \<Rightarrow> candidate \<Rightarrow> found_room" where
  "annotate lat lon r =
     (let prop = c_properties r;
          d = distanceKm lat lon
                (js_or (map_option Fin (r_latitude (c_room r))) (prop_latitude prop))
                (js_or (map_option Fin (r_longitude (c_room r))) (prop_longitude prop))
      in candidate.extend r \<lparr>distance_km = d\<rparr>)"

definition within_radius :: "jsnum \<Rightarrow> found_room \<Rightarrow> bool" where
  "within_radius radKm r = (case distance_km r of None \<Rightarrow> True | Some d \<Rightarrow> js_le d radKm)"

definition or_infinity :: "jsnum option \<Rightarrow> jsnum" where
  "or_infinity d = (case d of None \<Rightarrow> PInf | Some v \<Rightarrow> if js_truthy v then v else PInf)"

definition compare_distance :: "found_room \<Rightarrow> found_room \<Rightarrow> jsnum" where
  "compare_distance a b = js_sub (or_infinity (distance_km a)) (or_infinity (distance_km b))"

definition compare_column :: "string \<Rightarrow> bool \<Rightarrow> found_room \<Rightarrow> found_room \<Rightarrow> jsnum" where
  "compare_column orderColumn ascending a b =
     (let av = column orderColumn (c_room a);
          bv = column orderColumn (c_room b)
      in if av = JNull \<and> bv = JNull then Fin 0
         else if av = JNull then Fin 1
         else if bv = JNull then Fin (- 1)
         else if ascending then js_sub (to_number av) (to_number bv)
         else js_sub (to_number bv) (to_number av))"

datatype search_response =
    Rooms "candidate list"
  | Rooms_near "found_room list" jsnum jsnum jsnum

definition order_column :: "search_query \<Rightarrow> string" where
  "order_column q =
     (if truthy (sortBy q)
      then (if sortBy q = Some ''rent'' then ''rent_amount''
            else if sortBy q = Some ''deposit'' then ''deposit_amount''
            else ''created_at'')
      else ''created_at'')"

definition order_ascending :: "search_query \<Rightarrow> bool" where
  "order_ascending q = (if truthy (sortOrder q) then sortOrder q = Some ''asc'' else False)"

definition available_rooms :: "env \<Rightarrow> store \<Rightarrow> search_req \<Rightarrow> error + search_response" where
  "available_rooms e s req =
     (let q = req_query req;
          orderColumn = order_column q;
          ascending = order_ascending q
      in if truthy (latitude q) \<and> truthy (longitude q) then
           (let lat = parse_param (latitude q);
                lon = parse_param (longitude q);
                radKm = (if truthy (radius q) then parse_param (radius q) else Fin 10)
            in case select_rooms e s q of
                 None \<Rightarrow> Inl Failed_to_fetch_available_rooms
               | Some candidates \<Rightarrow>
                   (let roomsData = filter (within_radius radKm) (map (annotate lat lon) candidates)
                    in Inr (Rooms_near
                              (if sortBy q = Some ''distance''
                               then js_sort compare_distance roomsData
                               else js_sort (compare_column orderColumn ascending) roomsData)
                              lat lon radKm)))
         else
           (case select_rooms_ordered e s q orderColumn ascending of
              None \<Rightarrow> Inl Failed_to_fetch_available_rooms
            | Some rs \<Rightarrow> Inr (Rooms rs)))"

section \<open>A small store\<close>

text \<open>
  One owner with one property, two tenants, and the rooms and bookings a scenario puts
  in; the scenarios below run the routes on it.
\<close>

definition quiet :: env where
  "quiet = \<lparr>now = 1000, new_id = 50, fails = (\<lambda>c. False), ilike = (\<lambda>pat txt. False)\<rparr>"

definition olive :: owner where
  "olive = \<lparr>o_id = 10, o_user_id = Some 110, o_name = ''Olive'', o_phone = ''100'',
            o_business_name = ''Olive Homes''\<rparr>"

definition asha :: tenant where
  "asha = \<lparr>t_id = 20, t_user_id = Some 120, t_name = ''Asha'', t_phone = ''200'',
           t_room_number = None\<rparr>"

definition ben :: tenant where
  "ben = \<lparr>t_id = 21, t_user_id = Some 121, t_name = ''Ben'', t_phone = ''201'',
          t_room_number = None\<rparr>"

definition hostel :: property where
  "hostel = \<lparr>p_id = 30, p_owner_id = Some 10, p_name = ''Hostel'', p_address = ''1 Main Rd'',
             p_city = ''Bengaluru'', p_state = ''Karnataka'', p_pincode = ''560001'',
             p_latitude = None, p_longitude = None\<rparr>"

definition a_room :: "uuid \<Rightarrow> string \<Rightarrow> room_status \<Rightarrow> room" where
  "a_room i n st =
     \<lparr>r_id = i, r_property_id = Some 30, r_room_number = n, r_room_type = ''Single'',
      r_rent_amount = 5000, r_deposit_amount = Some 10000, r_latitude = None,
      r_longitude = None, r_status = st, r_last_updated = None, r_created_at = Some 1\<rparr>"

definition a_booking :: "uuid \<Rightarrow> uuid \<Rightarrow> uuid \<Rightarrow> booking_status \<Rightarrow> booking" where
  "a_booking i tid rid st =
     \<lparr>b_id = i, b_tenant_id = Some tid, b_room_id = Some rid, b_property_id = Some 30,
      b_move_in_date = Some ''2024-06-01T00:00:00.000Z'', b_move_out_date = None,
      b_status = st, b_owner_notes = None, b_tenant_notes = None, b_updated_at = None\<rparr>"

definition a_store :: "room list \<Rightarrow> booking list \<Rightarrow> store" where
  "a_store rs bs =
     \<lparr>tenants = [asha, ben], owners = [olive], properties = [hostel], rooms = rs,
      bookings = bs, notifications = [], audit_logs = []\<rparr>"

definition a_request :: "uuid \<Rightarrow> uuid \<Rightarrow> book_req" where
  "a_request uid rid =
     \<lparr>br_user = uid, br_roomId = Some rid, br_moveInDate = Good_date ''2024-06-01T00:00:00.000Z'',
      br_moveOutDate = No_date, br_notes = None\<rparr>"

definition a_room_at :: "uuid \<Rightarrow> real option \<Rightarrow> real option \<Rightarrow> timestamp \<Rightarrow> room" where
  "a_room_at i lat lon t =
     (a_room i ''101'' Available)\<lparr>r_latitude := lat, r_longitude := lon, r_created_at := Some t\<rparr>"

text \<open>An anonymous search around a centre, every other parameter left out.\<close>

definition a_search :: "string \<Rightarrow> string \<Rightarrow> search_req" where
  "a_search lat lon =
     \<lparr>req_user = None,
      req_query = \<lparr>location = None, maxRent = None, minRent = None, roomType = None,
                   latitude = Some lat, longitude = Some lon, radius = None,
                   sortBy = None, sortOrder = None\<rparr>\<rparr>"

section \<open>Facts about the store client\<close>

lemmas scenario_defs = quiet_def olive_def asha_def ben_def hostel_def a_room_def a_booking_def
  a_store_def a_request_def
lemmas store_defs = single_row_def property_by_id_def owner_by_id_def room_by_id_def
  tenant_by_id_def room_with_owner_def booking_joined_def booking_with_room_def
  select_tenant_def select_owner_def active_def select_existing_def select_available_room_def
  select_owner_booking_def select_tenant_booking_def insert_booking_def update_booking_def
  update_room_status_def update_tenant_room_number_def insert_notification_def logActivity_def
  List.map_filter_def

lemma single_row_SomeD: "single_row failed rows = Some x \<Longrightarrow> rows = [x] \<and> \<not> failed"
  by (auto simp: single_row_def split: if_splits list.splits)

lemma map_filter_eq_singletonD:
  "List.map_filter f xs = [y] \<Longrightarrow> \<exists>x \<in> set xs. f x = Some y"
proof -
  assume "List.map_filter f xs = [y]"
  then have "y \<in> set (List.map_filter f xs)" by simp
  then show ?thesis by (auto simp: map_filter_def)
qed

lemma booking_joined_SomeD:
  "booking_joined s x = Some (b, t, r, p) \<Longrightarrow>
     x = b \<and> tenant_by_id s (b_tenant_id b) = Some t \<and> room_by_id s (b_room_id b) = Some r
       \<and> property_by_id s (b_property_id b) = Some p"
  by (auto simp: booking_joined_def split: option.splits)


lemma select_owner_booking_SomeD:
  assumes "select_owner_booking e s bid oid = Some (b, t, r, p)"
  shows "b \<in> set (bookings s)" and "b_id b = bid"
    and "tenant_by_id s (b_tenant_id b) = Some t"
    and "room_by_id s (b_room_id b) = Some r"
    and "property_by_id s (b_property_id b) = Some p"
    and "p_owner_id p = Some oid"
proof -
  let ?rows = "List.map_filter (booking_joined s) (filter (\<lambda>b. b_id b = bid) (bookings s))"
  from assms have "filter (\<lambda>(b, t, r, p). p_owner_id p = Some oid) ?rows = [(b, t, r, p)]"
    unfolding select_owner_booking_def by (auto dest: single_row_SomeD)
  then have "(b, t, r, p) \<in> set (filter (\<lambda>(b, t, r, p). p_owner_id p = Some oid) ?rows)"
    by simp
  then have own: "p_owner_id p = Some oid" and mem: "(b, t, r, p) \<in> set ?rows"
    by auto
  from mem obtain x where x: "x \<in> set (bookings s)" "b_id x = bid"
      "booking_joined s x = Some (b, t, r, p)"
    by (auto simp: map_filter_def)
  from booking_joined_SomeD [OF x(3)] x own
  show "b \<in> set (bookings s)" and "b_id b = bid"
    and "tenant_by_id s (b_tenant_id b) = Some t"
    and "room_by_id s (b_room_id b) = Some r"
    and "property_by_id s (b_property_id b) = Some p"
    and "p_owner_id p = Some oid"
    by auto
qed


lemma distinct_ids_same:
  "distinct (map b_id xs) \<Longrightarrow> b \<in> set xs \<Longrightarrow> b' \<in> set xs \<Longrightarrow> b_id b = b_id b' \<Longrightarrow> b = b'"
  by (meson distinct_map inj_onD)


section \<open>Deciding a booking\<close>

text \<open>
  C4. A decision on a booking whose status is not \<open>pending\<close> fails with an error, and
  the store after the request is the store before it: no booking, room or other row is
  written. (Booking identifiers are the primary key of their table.)
\<close>

theorem processed_booking_is_left_alone:
  assumes "distinct (map b_id (bookings s))"
    and "b \<in> set (bookings s)" and "b_id b = sr_bookingId req" and "b_status b \<noteq> Pending"
  shows "\<exists>err. update_booking_status e s req = (Inl err, s)"
proof -
  have "b_status b' \<noteq> Pending"
    if "select_owner_booking e s (sr_bookingId req) oid = Some (b', t, r, p)" for oid b' t r p
  proof -
    from select_owner_booking_SomeD(1,2) [OF that] assms
    have "b' = b" by (auto intro: distinct_ids_same)
    with assms show ?thesis by simp
  qed
  then show ?thesis
    unfolding update_booking_status_def
    by (auto split: option.splits prod.splits)
qed

theorem processed_booking_is_left_alone_witness:
  "distinct (map b_id (bookings (a_store [a_room 40 ''101'' Occupied] [a_booking 50 20 40 Approved])))
   \<and> a_booking 50 20 40 Approved \<in> set (bookings (a_store [a_room 40 ''101'' Occupied] [a_booking 50 20 40 Approved]))
   \<and> b_status (a_booking 50 20 40 Approved) \<noteq> Pending
   \<and> update_booking_status quiet (a_store [a_room 40 ''101'' Occupied] [a_booking 50 20 40 Approved])
        \<lparr>sr_user = 110, sr_bookingId = 50, sr_status = ''rejected'', sr_notes = None\<rparr>
      = (Inl Booking_already_processed, a_store [a_room 40 ''101'' Occupied] [a_booking 50 20 40 Approved])"
proof -
  let ?s = "a_store [a_room 40 ''101'' Occupied] [a_booking 50 20 40 Approved]"
  let ?req = "\<lparr>sr_user = 110, sr_bookingId = 50, sr_status = ''rejected'', sr_notes = None\<rparr>"
  have h: "distinct (map b_id (bookings ?s))" "a_booking 50 20 40 Approved \<in> set (bookings ?s)"
    "b_id (a_booking 50 20 40 Approved) = sr_bookingId ?req"
    "b_status (a_booking 50 20 40 Approved) \<noteq> Pending"
    by (simp_all add: scenario_defs)
  from processed_booking_is_left_alone [OF h, of quiet]
  obtain err where "update_booking_status quiet ?s ?req = (Inl err, ?s)" by blast
  moreover have "fst (update_booking_status quiet ?s ?req) = Inl Booking_already_processed"
    by (simp add: update_booking_status_def store_defs scenario_defs)
  ultimately show ?thesis using h by simp
qed

lemma find_update_same:
  assumes "find (\<lambda>x. k x = i) xs = Some y" and "\<And>x. k (f x) = k x"
  shows "find (\<lambda>x. k x = i) (map (\<lambda>x. if k x = i then f x else x) xs) = Some (f y)"
  using assms(1) by (induction xs) (auto simp: assms(2))

lemma find_update_other:
  assumes "j \<noteq> i" and "\<And>x. k (f x) = k x"
  shows "find (\<lambda>x. k x = j) (map (\<lambda>x. if k x = i then f x else x) xs)
         = find (\<lambda>x. k x = j) xs"
  using assms(1) by (induction xs) (auto simp: assms(2))

lemma find_in_set: "x \<in> set xs \<Longrightarrow> \<exists>y. find (\<lambda>z. k z = k x) xs = Some y \<and> k y = k x"
  by (induction xs) auto



text \<open>What each write leaves alone.\<close>

lemma update_room_status_frame [simp]:
  "bookings (update_room_status e s rid st) = bookings s"
  "tenants (update_room_status e s rid st) = tenants s"
  by (simp_all add: update_room_status_def)

lemma update_tenant_room_number_frame [simp]:
  "bookings (update_tenant_room_number e s tid rn) = bookings s"
  "rooms (update_tenant_room_number e s tid rn) = rooms s"
  by (simp_all add: update_tenant_room_number_def)

lemma insert_notification_frame [simp]:
  "bookings (insert_notification e s n) = bookings s"
  "rooms (insert_notification e s n) = rooms s"
  "tenants (insert_notification e s n) = tenants s"
  by (simp_all add: insert_notification_def)

lemma logActivity_frame [simp]:
  "bookings (logActivity e s u a tb i) = bookings s"
  "rooms (logActivity e s u a tb i) = rooms s"
  "tenants (logActivity e s u a tb i) = tenants s"
  by (simp_all add: logActivity_def)



lemma room_status_after_update:
  assumes "find (\<lambda>x. r_id x = i) (rooms s) = Some r" and "\<not> fails e Upd_room"
  shows "room_status_of (update_room_status e s (Some i) st) i = Some st"
proof -
  have "find (\<lambda>x. r_id x = i)
          (map (\<lambda>x. if r_id x = i then x\<lparr>r_status := st, r_last_updated := Some (now e)\<rparr> else x) (rooms s))
        = Some (r\<lparr>r_status := st, r_last_updated := Some (now e)\<rparr>)"
    by (rule find_update_same [OF assms(1)]) simp
  with assms(2) show ?thesis
    by (simp add: room_status_of_def update_room_status_def)
qed



lemma lookups_frame [simp]:
  "room_status_of (update_tenant_room_number e s tid rn) = room_status_of s"
  "room_status_of (insert_notification e s n) = room_status_of s"
  "room_status_of (logActivity e s u a tb i) = room_status_of s"
  "booking_status_of (update_room_status e s rid st) = booking_status_of s"
  "booking_status_of (update_tenant_room_number e s tid rn) = booking_status_of s"
  "booking_status_of (insert_notification e s n) = booking_status_of s"
  "booking_status_of (logActivity e s u a tb i) = booking_status_of s"
  "tenant_room_number_of (update_room_status e s rid st) = tenant_room_number_of s"
  "tenant_room_number_of (insert_notification e s n) = tenant_room_number_of s"
  "tenant_room_number_of (logActivity e s u a tb i) = tenant_room_number_of s"
  by (simp_all add: room_status_of_def booking_status_of_def tenant_room_number_of_def fun_eq_iff)




section \<open>What a request does to the bookings table\<close>




section \<open>Terminal booking states\<close>

















section \<open>Booking a room\<close>

lemma book_room_conflict:
  assumes "book_room_errors req = []"
    and "select_tenant e s (br_user req) = Some t"
    and "\<not> fails e Sel_existing"
    and "filter (\<lambda>b. b_tenant_id b = Some (t_id t) \<and> active b) (bookings s) = [b]"
  shows "book_room e s req = (Inl Already_active_booking, s)"
  using assms
  by (simp add: book_room_def book_room_check_def select_existing_def single_row_def)

lemma select_available_room_SomeD:
  assumes "select_available_room e s rid = Some (r, p, ow)"
  shows "r \<in> set (rooms s)" and "r_id r = rid" and "r_status r = Available"
proof -
  let ?rows = "List.map_filter (room_with_owner s)
                 (filter (\<lambda>r. r_id r = rid \<and> r_status r = Available) (rooms s))"
  from assms have "?rows = [(r, p, ow)]"
    unfolding select_available_room_def by (auto dest: single_row_SomeD)
  then have "(r, p, ow) \<in> set ?rows" by simp
  then obtain x where "x \<in> set (rooms s)" "r_id x = rid" "r_status x = Available"
      "room_with_owner s x = Some (r, p, ow)"
    by (auto simp: map_filter_def)
  moreover from this have "x = r"
    by (auto simp: room_with_owner_def split: option.splits)
  ultimately show "r \<in> set (rooms s)" and "r_id r = rid" and "r_status r = Available"
    by auto
qed

lemma book_room_unavailable:
  assumes "br_roomId req = Some rid"
    and "\<forall>r \<in> set (rooms s). r_id r = rid \<longrightarrow> r_status r \<noteq> Available"
  shows "\<exists>err. book_room e s req = (Inl err, s)"
proof -
  have "select_available_room e s rid = None"
  proof (cases "select_available_room e s rid")
    case None
    then show ?thesis .
  next
    case (Some x)
    obtain r p ow where "x = (r, p, ow)" by (cases x)
    with Some select_available_room_SomeD [of e s rid r p ow] assms(2)
    show ?thesis by auto
  qed
  with assms(1) show ?thesis
    by (auto simp: book_room_def book_room_check_def split: option.splits)
qed

lemma book_room_success:
  assumes "book_room_errors req = []" and "br_roomId req = Some rid"
    and "select_tenant e s (br_user req) = Some t"
    and "filter (\<lambda>b. b_tenant_id b = Some (t_id t) \<and> active b) (bookings s) = []"
    and "select_available_room e s rid = Some (r, p, ow)"
    and "\<not> fails e Ins_booking" and "new_id e \<notin> b_id ` set (bookings s)"
    and "\<not> fails e Upd_room"
    and "book_room e s req = (res, s')"
  shows "\<exists>bc. res = Inr bc \<and> b_status (bc_booking bc) = Pending \<and>
              b_tenant_id (bc_booking bc) = Some (t_id t) \<and>
              b_room_id (bc_booking bc) = Some rid \<and>
              bookings s' = bookings s @ [bc_booking bc] \<and>
              room_status_of s' rid = Some Reserved"
proof -
  from assms(4) have ex: "select_existing e s (t_id t) = None"
    by (simp add: select_existing_def single_row_def)
  note room = select_available_room_SomeD [OF assms(5)]
  from find_in_set [OF room(1), of r_id] room(2)
  obtain y where y: "find (\<lambda>x. r_id x = rid) (rooms s) = Some y" by auto
  let ?row = "\<lparr>b_id = new_id e, b_tenant_id = Some (t_id t), b_room_id = Some rid,
               b_property_id = Some (p_id p),
               b_move_in_date = normalized (br_moveInDate req),
               b_move_out_date = normalized (br_moveOutDate req),
               b_status = Pending, b_owner_notes = None,
               b_tenant_notes = br_notes req, b_updated_at = None\<rparr>"
  let ?s1 = "s\<lparr>bookings := bookings s @ [?row]\<rparr>"
  from assms(6,7) have ins: "insert_booking e s ?row = Some ?s1"
    by (simp add: insert_booking_def)
  have rs: "room_status_of (update_room_status e ?s1 (Some rid) Reserved) rid = Some Reserved"
    by (rule room_status_after_update [of rid ?s1 y]) (simp_all add: y assms(8))
  from assms(9) have "res = Inr \<lparr>bc_booking = ?row, bc_room_number = r_room_number r,
                          bc_room_type = r_room_type r, bc_rent_amount = r_rent_amount r,
                          bc_property_name = p_name p, bc_property_address = p_address p\<rparr>"
    and "bookings s' = bookings s @ [?row]"
    and "room_status_of s' rid = room_status_of (update_room_status e ?s1 (Some rid) Reserved) rid"
    by (auto simp: book_room_def book_room_check_def book_room_commit_def assms(1,2,3,5) ex ins
          Let_def)
  with rs show ?thesis by simp
qed

text \<open>
  C1. The route refuses a tenant who holds an active booking only when the query for it
  comes back with exactly one row. For a tenant with two \<open>pending\<close> bookings the
  \<^verbatim>\<open>.single()\<close> read gives no data, the check passes, and a third booking is created
  and its room reserved.
\<close>

theorem book_room_with_two_active_bookings:
  "filter (\<lambda>b. b_tenant_id b = Some 20 \<and> active b)
     (bookings (a_store [a_room 40 ''101'' Reserved, a_room 41 ''102'' Reserved,
                         a_room 42 ''103'' Available]
                  [a_booking 50 20 40 Pending, a_booking 51 20 41 Pending]))
     = [a_booking 50 20 40 Pending, a_booking 51 20 41 Pending]
   \<and> (case book_room (quiet\<lparr>new_id := 52\<rparr>)
            (a_store [a_room 40 ''101'' Reserved, a_room 41 ''102'' Reserved,
                      a_room 42 ''103'' Available]
               [a_booking 50 20 40 Pending, a_booking 51 20 41 Pending])
            (a_request 120 42) of
        (res, s') \<Rightarrow>
          map_sum http_status (\<lambda>bc. (b_id (bc_booking bc), b_status (bc_booking bc))) res
            = Inr (52, Pending)
          \<and> map (\<lambda>b. (b_id b, b_tenant_id b, b_room_id b, b_status b)) (bookings s')
            = [(50, Some 20, Some 40, Pending), (51, Some 20, Some 41, Pending),
               (52, Some 20, Some 42, Pending)]
          \<and> room_status_of s' 42 = Some Reserved)"
  by (simp add: book_room_def book_room_check_def book_room_commit_def book_room_errors_def
        room_status_of_def store_defs scenario_defs Let_def)


text \<open>
  The store of C1's scenario arises from the routes themselves: two requests of one
  tenant for two rooms, in flight together, leave that tenant with two \<open>pending\<close>
  bookings.
\<close>

lemma two_active_bookings_arise:
  "(case book_room_interleaved quiet (quiet\<lparr>new_id := 51\<rparr>)
          (a_store [a_room 40 ''101'' Available, a_room 41 ''102'' Available,
                    a_room 42 ''103'' Available] [])
          (a_request 120 40) (a_request 120 41) of
      (res1, res2, s') \<Rightarrow>
        map (\<lambda>b. (b_id b, b_tenant_id b, b_room_id b, b_status b)) (bookings s')
          = [(50, Some 20, Some 40, Pending), (51, Some 20, Some 41, Pending)]
        \<and> map (\<lambda>r. (r_id r, r_status r)) (rooms s')
          = [(40, Reserved), (41, Reserved), (42, Available)])"
  by (simp add: book_room_interleaved_def book_room_def book_room_check_def
        book_room_commit_def book_room_errors_def store_defs scenario_defs Let_def)

section \<open>The distance\<close>

lemma sin_half_square_swap:
  "sin ((a - b) * pi / 180 / 2) * sin ((a - b) * pi / 180 / 2)
   = sin ((b - a) * pi / 180 / 2) * sin ((b - a) * pi / 180 / 2)"
proof -
  have "(b - a) * pi / 180 / 2 = - ((a - b) * pi / 180 / 2)"
    by (simp add: field_simps)
  then show ?thesis by simp
qed

lemma distanceKm_same_point:
  "distanceKm (Fin lat) (Fin lon) (Some (Fin lat)) (Some (Fin lon)) = Some (Fin 0)"
  by (simp add: distanceKm_def toRad_def js_sub_def atan2_def)

text \<open>
  In exact arithmetic the distance from a point to itself is 0, and the distance from A to
  B is the distance from B to A. Exact arithmetic also keeps the \<open>a\<close> of the formula
  within 0 and 1; the rounding of doubles does not, and this says nothing of it.
\<close>

lemma distanceKm_exact_zero_and_symmetric:
  "distanceKm (Fin lat) (Fin lon) (Some (Fin lat)) (Some (Fin lon)) = Some (Fin 0)
   \<and> distanceKm (Fin lat1) (Fin lon1) (Some (Fin lat2)) (Some (Fin lon2))
     = distanceKm (Fin lat2) (Fin lon2) (Some (Fin lat1)) (Some (Fin lon1))"
proof
  show "distanceKm (Fin lat) (Fin lon) (Some (Fin lat)) (Some (Fin lon)) = Some (Fin 0)"
    by (simp add: distanceKm_def toRad_def js_sub_def atan2_def)
next
  let ?a = "\<lambda>x1 y1 x2 y2.
      sin ((x2 - x1) * pi / 180 / 2) * sin ((x2 - x1) * pi / 180 / 2)
      + cos (x1 * pi / 180) * cos (x2 * pi / 180)
        * sin ((y2 - y1) * pi / 180 / 2) * sin ((y2 - y1) * pi / 180 / 2)"
  have sym: "?a lat1 lon1 lat2 lon2 = ?a lat2 lon2 lat1 lon1"
    using sin_half_square_swap [of lat2 lat1] sin_half_square_swap [of lon2 lon1]
    by (simp add: mult.assoc mult.left_commute)
  have val: "distanceKm (Fin x1) (Fin y1) (Some (Fin x2)) (Some (Fin y2))
             = Some (js_mul (Fin 6371) (js_mul (Fin 2)
                  (js_atan2 (js_sqrt (Fin (?a x1 y1 x2 y2)))
                            (js_sqrt (js_sub (Fin 1) (Fin (?a x1 y1 x2 y2)))))))"
    for x1 y1 x2 y2
    by (simp add: distanceKm_def toRad_def js_sub_def Let_def)
  show "distanceKm (Fin lat1) (Fin lon1) (Some (Fin lat2)) (Some (Fin lon2))
        = distanceKm (Fin lat2) (Fin lon2) (Some (Fin lat1)) (Some (Fin lon1))"
    unfolding val sym ..
qed

lemma atan2_of_sin_cos:
  assumes "0 \<le> x" and "x \<le> pi / 2"
  shows "atan2 (sin x) (cos x) = x"
proof (cases "x = pi / 2")
  case True
  show ?thesis unfolding True by (simp add: atan2_def)
next
  case False
  with assms have lt: "x < pi / 2" by simp
  with assms have "0 < cos x" by (intro cos_gt_zero_pi) auto
  moreover have "arctan (sin x / cos x) = x"
    using arctan_tan [of x] assms lt by (simp add: tan_def)
  ultimately show ?thesis by (simp add: atan2_def)
qed

text \<open>On one meridian the distance is the arc between the two latitudes.\<close>

lemma distanceKm_same_meridian:
  assumes "\<bar>lat2 - lat1\<bar> \<le> 180"
  shows "distanceKm (Fin lat1) (Fin lon) (Some (Fin lat2)) (Some (Fin lon))
         = Some (Fin (6371 * (\<bar>lat2 - lat1\<bar> * pi / 180)))"
proof -
  define x where "x = \<bar>lat2 - lat1\<bar> * pi / 180 / 2"
  have x: "0 \<le> x" "x \<le> pi / 2"
    using assms by (simp_all add: x_def field_simps)
  have sq: "sin ((lat2 - lat1) * pi / 180 / 2) * sin ((lat2 - lat1) * pi / 180 / 2)
            = sin x * sin x"
  proof (cases "0 \<le> lat2 - lat1")
    case True
    then show ?thesis by (simp add: x_def)
  next
    case False
    then have "x = - ((lat2 - lat1) * pi / 180 / 2)" by (simp add: x_def field_simps)
    then show ?thesis by simp
  qed
  have s0: "0 \<le> sin x" using x by (intro sin_ge_zero) auto
  have c0: "0 \<le> cos x" using x by (intro cos_ge_zero) auto
  have "1 - sin x * sin x = cos x * cos x"
    using sin_cos_squared_add [of x] by (simp add: power2_eq_square algebra_simps)
  then have r2: "sqrt (1 - sin x * sin x) = cos x" using c0 by simp
  have le1: "sin x * sin x \<le> 1"
    using \<open>1 - sin x * sin x = cos x * cos x\<close> zero_le_square [of "cos x"] by linarith
  let ?a = "sin ((lat2 - lat1) * pi / 180 / 2) * sin ((lat2 - lat1) * pi / 180 / 2)
      + cos (lat1 * pi / 180) * cos (lat2 * pi / 180)
        * sin ((lon - lon) * pi / 180 / 2) * sin ((lon - lon) * pi / 180 / 2)"
  have a: "?a = sin x * sin x"
    unfolding sq by simp
  have "distanceKm (Fin lat1) (Fin lon) (Some (Fin lat2)) (Some (Fin lon))
        = Some (js_mul (Fin 6371) (js_mul (Fin 2)
            (js_atan2 (js_sqrt (Fin ?a)) (js_sqrt (js_sub (Fin 1) (Fin ?a))))))"
    by (simp add: distanceKm_def toRad_def js_sub_def Let_def)
  also have "\<dots> = Some (Fin (6371 * (2 * atan2 (sin x) (cos x))))"
    unfolding a using s0 le1 by (simp add: js_sub_def r2 not_less)
  also have "\<dots> = Some (Fin (6371 * (\<bar>lat2 - lat1\<bar> * pi / 180)))"
    by (simp add: atan2_of_sin_cos [OF x]) (simp add: x_def)
  finally show ?thesis .
qed

section \<open>The search\<close>

lemmas search_defs = available_rooms_def select_rooms_def select_rooms_ordered_def
  matches_filters_def embed_def annotate_def within_radius_def js_or_def prop_latitude_def
  prop_longitude_def truthy_def parse_param_def parseFloat_def parse_unsigned_def is_space_def
  is_digit_def digits_value_def exponent_part_def scale10_def order_column_def
  order_ascending_def js_sort_def sort_by_def compare_column_def compare_distance_def
  or_infinity_def column_def js_sub_def a_room_at_def a_search_def candidate.extend_def

lemma set_insert_by: "set (insert_by after x ys) = insert x (set ys)"
  by (induction ys) auto

lemma set_sort_by: "set (sort_by after xs) = set xs"
  by (induction xs) (simp_all add: sort_by_def set_insert_by)

lemma set_js_sort: "set (js_sort compare xs) = set xs"
  by (simp add: js_sort_def set_sort_by)

text \<open>
  What holds of the geo path: the rooms returned are the fetched rooms whose distance is
  null or at most the radius, and the radius is 10 when the parameter is left out.
\<close>

lemma near_rooms_are_filtered:
  assumes "truthy (latitude (req_query req))" and "truthy (longitude (req_query req))"
    and "select_rooms e s (req_query req) = Some candidates"
  shows "\<exists>rs. available_rooms e s req
              = Inr (Rooms_near rs (parse_param (latitude (req_query req)))
                       (parse_param (longitude (req_query req)))
                       (if truthy (radius (req_query req))
                        then parse_param (radius (req_query req)) else Fin 10))
            \<and> set rs = {r \<in> annotate (parse_param (latitude (req_query req)))
                                (parse_param (longitude (req_query req))) ` set candidates.
                         within_radius (if truthy (radius (req_query req))
                                        then parse_param (radius (req_query req)) else Fin 10) r}"
  using assms by (auto simp: available_rooms_def Let_def set_js_sort)

lemma distance_of_own_coordinates:
  assumes "r_latitude (c_room c) = Some la" and "la \<noteq> 0"
    and "r_longitude (c_room c) = Some lo" and "lo \<noteq> 0"
  shows "distance_km (annotate lat lon c) = distanceKm lat lon (Some (Fin la)) (Some (Fin lo))"
  using assms by (simp add: annotate_def js_or_def Let_def candidate.extend_def)

text \<open>
  A room with no latitude or no longitude of its own has a null distance, whatever its
  property holds: the fetched property carries no coordinates.
\<close>

lemma distance_without_own_coordinates:
  assumes "r_latitude (c_room c) = None \<or> r_longitude (c_room c) = None"
  shows "distance_km (annotate lat lon c) = None"
  using assms
  by (auto simp: annotate_def js_or_def Let_def candidate.extend_def prop_latitude_def
        prop_longitude_def distanceKm_def split: option.splits)

text \<open>
  C6. A room without coordinates of its own, in a property at (13, 77), searched from
  (12, 77) with the default radius: the property is 6371 * pi / 180 km away, beyond the
  10 km, yet the room is returned, with a null distance. The property's coordinates are
  never fetched, so the fall-back to them does not happen.
\<close>

theorem room_of_a_far_property_is_returned:
  "available_rooms quiet
     ((a_store [a_room_at 40 None None 1] [])
        \<lparr>properties := [hostel\<lparr>p_latitude := Some 13, p_longitude := Some 77\<rparr>]\<rparr>)
     (a_search ''12'' ''77'')
   = Inr (Rooms_near
            [candidate.extend
               (embed (a_room_at 40 None None 1,
                       hostel\<lparr>p_latitude := Some 13, p_longitude := Some 77\<rparr>, olive))
               \<lparr>distance_km = None\<rparr>]
            (Fin 12) (Fin 77) (Fin 10))
   \<and> distanceKm (Fin 12) (Fin 77) (Some (Fin 13)) (Some (Fin 77)) = Some (Fin (6371 * (pi / 180)))
   \<and> \<not> js_le (Fin (6371 * (pi / 180))) (Fin 10)"
proof (intro conjI)
  show "available_rooms quiet
     ((a_store [a_room_at 40 None None 1] [])
        \<lparr>properties := [hostel\<lparr>p_latitude := Some 13, p_longitude := Some 77\<rparr>]\<rparr>)
     (a_search ''12'' ''77'')
   = Inr (Rooms_near
            [candidate.extend
               (embed (a_room_at 40 None None 1,
                       hostel\<lparr>p_latitude := Some 13, p_longitude := Some 77\<rparr>, olive))
               \<lparr>distance_km = None\<rparr>]
            (Fin 12) (Fin 77) (Fin 10))"
    by (simp add: search_defs store_defs scenario_defs distanceKm_def Let_def)
  show "distanceKm (Fin 12) (Fin 77) (Some (Fin 13)) (Some (Fin 77)) = Some (Fin (6371 * (pi / 180)))"
    using distanceKm_same_meridian [of 13 12 77] by simp
  have "10 < 6371 * (2 / 180 :: real)" by simp
  also have "\<dots> \<le> 6371 * (pi / 180)" using pi_ge_two by simp
  finally show "\<not> js_le (Fin (6371 * (pi / 180))) (Fin 10)" by simp
qed

text \<open>
  C7. Two rooms at the search centre, the older one first in the store. With no
  \<open>sortBy\<close> the column is \<open>created_at\<close> and the order descending, so the newer room
  should come first; the comparator subtracts two timestamp texts, gets NaN, and the rooms
  stay as the store gave them. Asking for \<open>asc\<close> gives the same list.
\<close>

theorem near_rooms_are_not_sorted_by_created_at:
  "available_rooms quiet
     (a_store [a_room_at 40 (Some 12) (Some 77) 100, a_room_at 41 (Some 12) (Some 77) 200] [])
     (a_search ''12'' ''77'')
   = Inr (Rooms_near
            [candidate.extend (embed (a_room_at 40 (Some 12) (Some 77) 100, hostel, olive))
               \<lparr>distance_km = Some (Fin 0)\<rparr>,
             candidate.extend (embed (a_room_at 41 (Some 12) (Some 77) 200, hostel, olive))
               \<lparr>distance_km = Some (Fin 0)\<rparr>]
            (Fin 12) (Fin 77) (Fin 10))
   \<and> available_rooms quiet
     (a_store [a_room_at 40 (Some 12) (Some 77) 100, a_room_at 41 (Some 12) (Some 77) 200] [])
     ((a_search ''12'' ''77'')
        \<lparr>req_query := (req_query (a_search ''12'' ''77''))\<lparr>sortOrder := Some ''asc''\<rparr>\<rparr>)
   = Inr (Rooms_near
            [candidate.extend (embed (a_room_at 40 (Some 12) (Some 77) 100, hostel, olive))
               \<lparr>distance_km = Some (Fin 0)\<rparr>,
             candidate.extend (embed (a_room_at 41 (Some 12) (Some 77) 200, hostel, olive))
               \<lparr>distance_km = Some (Fin 0)\<rparr>]
            (Fin 12) (Fin 77) (Fin 10))"
  by (simp add: search_defs store_defs scenario_defs distanceKm_same_point Let_def)




lemma truthy_empty [simp]: "\<not> truthy (Some [])" "\<not> truthy None"
  by (simp_all add: truthy_def)



text \<open>
  C10. The route is registered with no authentication or role middleware and its handler
  reads nothing of the request but the query: for one store, one environment and one
  query, any two callers get the same answer.
\<close>

theorem available_rooms_ignores_the_caller:
  "available_rooms e s \<lparr>req_user = caller1, req_query = q\<rparr>
   = available_rooms e s \<lparr>req_user = caller2, req_query = q\<rparr>"
  by (simp add: available_rooms_def)

theorem available_rooms_ignores_the_caller_witness:
  "available_rooms quiet (a_store [a_room_at 40 (Some 12) (Some 77) 1] [])
     \<lparr>req_user = None, req_query = req_query (a_search ''12'' ''77'')\<rparr>
   = available_rooms quiet (a_store [a_room_at 40 (Some 12) (Some 77) 1] [])
     \<lparr>req_user = Some \<lparr>pr_id = 110, pr_role = Owner\<rparr>,
      req_query = req_query (a_search ''12'' ''77'')\<rparr>"
  by (rule available_rooms_ignores_the_caller)

text \<open>
  The second slip of the same sort. With \<open>sortBy=distance\<close> the key of a room is
  \<^verbatim>\<open>distance_km || Infinity\<close>: the room at the centre, at distance 0, is ranked as if
  it had no distance, after the room that is 6371 * pi / 360 km away.
\<close>

lemma nearest_room_is_ranked_last:
  "available_rooms quiet
     (a_store [a_room_at 40 (Some 12) (Some 77) 1, a_room_at 41 (Some (25 / 2)) (Some 77) 1] [])
     ((a_search ''12'' ''77'')
        \<lparr>req_query := (req_query (a_search ''12'' ''77''))
                         \<lparr>radius := Some ''100'', sortBy := Some ''distance''\<rparr>\<rparr>)
   = Inr (Rooms_near
            [candidate.extend (embed (a_room_at 41 (Some (25 / 2)) (Some 77) 1, hostel, olive))
               \<lparr>distance_km = Some (Fin (6371 * (pi / 360)))\<rparr>,
             candidate.extend (embed (a_room_at 40 (Some 12) (Some 77) 1, hostel, olive))
               \<lparr>distance_km = Some (Fin 0)\<rparr>]
            (Fin 12) (Fin 77) (Fin 100))"
proof -
  have d: "distanceKm (Fin 12) (Fin 77) (Some (Fin (25 / 2))) (Some (Fin 77))
           = Some (Fin (6371 * (pi / 360)))"
    using distanceKm_same_meridian [of "25 / 2" 12 77] by simp
  have "6371 * (pi / 360) \<le> 6371 * (4 / 360 :: real)"
    using pi_less_4 by simp
  then have le: "6371 * (pi / 360) \<le> (100 :: real)" by simp
  show ?thesis
    using le
    by (simp add: search_defs store_defs scenario_defs distanceKm_same_point d Let_def)
qed

section \<open>Sorting by a numeric column\<close>

lemma sorted_insert_by:
  assumes "\<And>x y. \<not> after x y \<Longrightarrow> le x y" and "\<And>x y. after x y \<Longrightarrow> le y x"
    and "\<And>x y z. le x y \<Longrightarrow> le y z \<Longrightarrow> le x z"
    and "sorted_wrt le ys"
  shows "sorted_wrt le (insert_by after x ys)"
  using assms(4)
proof (induction ys)
  case Nil
  then show ?case by simp
next
  case (Cons y ys)
  show ?case
  proof (cases "after x y")
    case True
    with Cons assms(2) [OF True] show ?thesis
      by (auto simp: set_insert_by)
  next
    case False
    from assms(1) [OF False] have xy: "le x y" .
    with Cons.prems assms(3) have "\<forall>z \<in> set ys. le x z" by auto
    with False xy Cons.prems show ?thesis by simp
  qed
qed

lemma sorted_sort_by:
  assumes "\<And>x y. \<not> after x y \<Longrightarrow> le x y" and "\<And>x y. after x y \<Longrightarrow> le y x"
    and "\<And>x y z. le x y \<Longrightarrow> le y z \<Longrightarrow> le x z"
  shows "sorted_wrt le (sort_by after xs)"
proof (induction xs)
  case Nil
  then show ?case by (simp add: sort_by_def)
next
  case (Cons x xs)
  have "sort_by after (x # xs) = insert_by after x (sort_by after xs)"
    by (simp add: sort_by_def)
  with sorted_insert_by [of after le, OF assms Cons.IH] show ?case by simp
qed

text \<open>
  What holds of the sort: by \<open>rent\<close> the rooms of the geo path come in ascending order
  of \<open>rent_amount\<close> for \<open>asc\<close> and in descending order otherwise.
\<close>

lemma near_rooms_sorted_by_rent:
  "sorted_wrt (\<lambda>a b. r_rent_amount (c_room a) \<le> r_rent_amount (c_room b))
     (js_sort (compare_column ''rent_amount'' True) xs)"
  "sorted_wrt (\<lambda>a b. r_rent_amount (c_room b) \<le> r_rent_amount (c_room a))
     (js_sort (compare_column ''rent_amount'' False) xs)"
  unfolding js_sort_def
  by (rule sorted_sort_by; simp add: compare_column_def column_def js_sub_def)+

end
